theory Spec2Isabelle
  imports Complex_Main
begin

section \<open>Sampling outcomes and search strategies\<close>

text \<open>
  The generators of \<^verbatim>\<open>cuml/testing/strategies.py\<close> are Hypothesis search strategies.
  One sampling attempt of a strategy ends in one of three ways: it yields a value, it is
  discarded (\<^verbatim>\<open>hypothesis.assume\<close> fails and the engine resamples), or an exception
  leaves the strategy. A strategy is modelled by the set of outcomes a sampling attempt
  can have; the choice among them is the engine's.
\<close>

datatype error =
    ValueError string
  | TypeError string
  | InvalidArgument string
  | UnavailableImportError string

datatype 'a outcome = Returned 'a | Rejected | Raised error

type_synonym 'a strategy = "'a outcome set"

text \<open>\<^verbatim>\<open>return v\<close> and \<^verbatim>\<open>raise e\<close> in the body of a composite strategy.\<close>

definition returns :: "'a \<Rightarrow> 'a strategy" where
  "returns v = {Returned v}"

definition raises :: "error \<Rightarrow> 'a strategy" where
  "raises e = {Raised e}"

text \<open>
  \<^verbatim>\<open>draw(s)\<close> followed by the rest of the body \<open>k\<close>: a rejection or an exception
  inside \<open>s\<close> ends the whole attempt, a value is handed on.
\<close>

definition draw :: "'a strategy \<Rightarrow> ('a \<Rightarrow> 'b strategy) \<Rightarrow> 'b strategy" where
  "draw s k =
     (\<Union>out\<in>s. case out of Returned v \<Rightarrow> k v | Rejected \<Rightarrow> {Rejected} | Raised e \<Rightarrow> {Raised e})"

text \<open>\<^verbatim>\<open>assume(c)\<close> followed by the rest of the body.\<close>

definition hyp_assume :: "bool \<Rightarrow> 'a strategy \<Rightarrow> 'a strategy" where
  "hyp_assume c k = (if c then k else {Rejected})"

text \<open>An expression that may raise, followed by the rest of the body.\<close>

definition try_eval :: "error + 'a \<Rightarrow> ('a \<Rightarrow> 'b strategy) \<Rightarrow> 'b strategy" where
  "try_eval r k = (case r of Inl e \<Rightarrow> {Raised e} | Inr v \<Rightarrow> k v)"

text \<open>
  The primitive strategies of the Hypothesis library that the module uses.
  \<^verbatim>\<open>integers(lo, hi)\<close> refuses an empty range.
\<close>

definition just :: "'a \<Rightarrow> 'a strategy" where
  "just v = {Returned v}"


text \<open>\<^verbatim>\<open>s.map(f)\<close>.\<close>

definition map_strategy :: "('a \<Rightarrow> 'b) \<Rightarrow> 'a strategy \<Rightarrow> 'b strategy" where
  "map_strategy f s = draw s (\<lambda>v. returns (f v))"

definition sampled_from :: "'a list \<Rightarrow> 'a strategy" where
  "sampled_from xs = Returned ` set xs"

definition integers :: "int \<Rightarrow> int \<Rightarrow> int strategy" where
  "integers lo hi =
     (if lo \<le> hi then Returned ` {lo..hi}
      else {Raised (InvalidArgument ''Cannot have max_value < min_value'')})"

text \<open>
  The decorator \<^verbatim>\<open>@composite\<close>: calling the decorated function with its arguments
  builds the strategy object and returns it; the body of the function runs only when the
  engine samples the strategy. Construction is therefore a result of its own, either an
  exception or the strategy.
\<close>

definition composite :: "('args \<Rightarrow> 'a strategy) \<Rightarrow> 'args \<Rightarrow> error + 'a strategy" where
  "composite body args = Inr (body args)"

section \<open>Shapes\<close>

text \<open>
  Modelled from the spec: \<^verbatim>\<open>hypothesis.extra.numpy.array_shapes\<close>, the generic
  array-shape generation capability, is not part of the repository. It yields the
  tuples of integers whose length lies in \<open>[min_dims, max_dims]\<close> and whose entries lie
  in \<open>[min_side, max_side]\<close>, and refuses bounds that are out of order or beyond the 32
  dimensions of an array.
\<close>

definition shape_within :: "int \<Rightarrow> int \<Rightarrow> int \<Rightarrow> int \<Rightarrow> int list \<Rightarrow> bool" where
  "shape_within min_dims max_dims min_side max_side shape \<longleftrightarrow>
     min_dims \<le> int (length shape) \<and> int (length shape) \<le> max_dims \<and>
     list_all (\<lambda>ax. min_side \<le> ax \<and> ax \<le> max_side) shape"

definition array_shapes :: "int \<Rightarrow> int \<Rightarrow> int \<Rightarrow> int \<Rightarrow> int list strategy" where
  "array_shapes min_dims max_dims min_side max_side =
     (if 0 \<le> min_dims \<and> min_dims \<le> max_dims \<and> max_dims \<le> 32 \<and>
         0 \<le> min_side \<and> min_side \<le> max_side
      then Returned ` {shape. shape_within min_dims max_dims min_side max_side shape}
      else {Raised (InvalidArgument ''array_shapes: invalid bounds'')})"

text \<open>
  The body of \<^verbatim>\<open>cuml_array_shapes\<close>; the keyword arguments are passed in the order
  \<open>min_dims\<close>, \<open>max_dims\<close>, \<open>min_side\<close>, \<open>max_side\<close>, the last \<open>None\<close> when left out.
\<close>

definition cuml_array_shapes_body :: "int \<times> int \<times> int \<times> int option \<Rightarrow> int list strategy" where
  "cuml_array_shapes_body args =
     (case args of (min_dims, max_dims, min_side, max_side_arg) \<Rightarrow>
        let max_side = (case max_side_arg of None \<Rightarrow> 10 | Some m \<Rightarrow> m) in
        if \<not> (1 \<le> min_dims \<and> min_dims \<le> max_dims) then
          raises (ValueError ''Arguments violate condition 1 <= min_dims <= max_dims.'')
        else if \<not> (0 < min_side \<and> min_side < max_side) then
          raises (ValueError ''Arguments violate condition 0 < min_side < max_side.'')
        else
          draw (array_shapes min_dims max_dims min_side max_side) (\<lambda>shape. returns shape))"

text \<open>What a caller invokes: the decorated function.\<close>

definition cuml_array_shapes :: "int \<times> int \<times> int \<times> int option \<Rightarrow> error + int list strategy" where
  "cuml_array_shapes = composite cuml_array_shapes_body"

section \<open>Arrays\<close>

text \<open>
  Arrays are kept by what the generators fix and the tests read: element type, shape and
  memory layout. Their contents (all ones, or random) play no part below.
\<close>

datatype dtype =
    float16 | float32 | float64
  | int8 | int16 | int32 | int64
  | uint8 | uint16 | uint32 | uint64

datatype order = OrderF | OrderC

record ndarray =
  arr_dtype :: dtype
  arr_shape :: "nat list"
  arr_order :: order

definition CUML_ARRAY_INPUT_TYPES :: "string option list" where
  "CUML_ARRAY_INPUT_TYPES = [Some ''numpy'', Some ''cupy'', Some ''series'', None]"

definition CUML_ARRAY_DTYPES :: "dtype list" where
  "CUML_ARRAY_DTYPES =
     [float16, float32, float64, int8, int16, int32, int64, uint8, uint16, uint32, uint64]"

definition CUML_ARRAY_ORDERS :: "order list" where
  "CUML_ARRAY_ORDERS = [OrderF, OrderC]"

definition UNSUPPORTED_CUDF_DTYPES :: "dtype list" where
  "UNSUPPORTED_CUDF_DTYPES = [uint8, uint16, uint32, uint64, float16]"

definition cuml_array_input_types :: "string option strategy" where
  "cuml_array_input_types = draw (sampled_from CUML_ARRAY_INPUT_TYPES) (\<lambda>v. returns v)"

definition cuml_array_dtypes :: "dtype strategy" where
  "cuml_array_dtypes = draw (sampled_from CUML_ARRAY_DTYPES) (\<lambda>v. returns v)"

definition cuml_array_orders :: "order strategy" where
  "cuml_array_orders = draw (sampled_from CUML_ARRAY_ORDERS) (\<lambda>v. returns v)"

text \<open>
  The \<^verbatim>\<open>shape\<close> argument of the array constructors is a tuple of integers or a single
  integer (a one-axis array of that size).
\<close>

datatype shape_arg = Tuple "int list" | Size int

definition dims_of :: "shape_arg \<Rightarrow> int list" where
  "dims_of shape = (case shape of Tuple ds \<Rightarrow> ds | Size n \<Rightarrow> [n])"

text \<open>
  Modelled from the spec: the raw array-construction primitive \<^verbatim>\<open>cupy.ones\<close>,
  \<open>(dtype, shape, layout) \<rightarrow> filled array\<close>, is not part of the repository. It builds the
  array of the requested element type, shape and layout, and refuses a negative axis.
\<close>

definition cp_ones :: "shape_arg \<Rightarrow> dtype \<Rightarrow> order \<Rightarrow> error + ndarray" where
  "cp_ones shape dt ord =
     (if list_all (\<lambda>d. 0 \<le> d) (dims_of shape)
      then Inr \<lparr>arr_dtype = dt, arr_shape = map nat (dims_of shape), arr_order = ord\<rparr>
      else Inl (ValueError ''negative dimensions are not allowed''))"

text \<open>The containers \<^verbatim>\<open>create_cuml_array_input\<close> hands out.\<close>

datatype array_input = NumpyArray ndarray | CupyArray ndarray | Series ndarray

text \<open>
  Modelled from the spec: \<^verbatim>\<open>cudf.Series\<close> is not part of the repository; a labeled
  series wraps a one-axis array and refuses any other.
\<close>

definition cudf_Series :: "ndarray \<Rightarrow> error + array_input" where
  "cudf_Series array =
     (if length (arr_shape array) = 1 then Inr (Series array)
      else Inl (ValueError ''Data must be 1-dimensional''))"

text \<open>\<^verbatim>\<open>str(input_type)\<close>, as the f-string of the error message formats it.\<close>

definition str_of_input_type :: "string option \<Rightarrow> string" where
  "str_of_input_type input_type = (case input_type of None \<Rightarrow> ''None'' | Some s \<Rightarrow> s)"

definition unknown_input_type :: "string option \<Rightarrow> error" where
  "unknown_input_type input_type =
     ValueError (''Unknown input_type '' @ [CHR 0x27] @ str_of_input_type input_type @ ''.'')"

text \<open>
  \<^verbatim>\<open>create_cuml_array_input\<close> is a plain function: one call has one outcome. The
  \<^verbatim>\<open>assume\<close> is its first statement; \<^verbatim>\<open>np.array(cp.asnumpy(array), ...)\<close> keeps the
  element type, shape and layout of the array.
\<close>

definition multidimensional :: "shape_arg \<Rightarrow> bool" where
  "multidimensional shape =
     (case shape of Tuple ds \<Rightarrow> 1 < length (filter (\<lambda>d. 1 < d) ds) | Size n \<Rightarrow> False)"

definition create_cuml_array_input ::
  "string option \<Rightarrow> dtype \<Rightarrow> shape_arg \<Rightarrow> order \<Rightarrow> array_input outcome" where
  "create_cuml_array_input input_type dt shape ord =
     (if \<not> (\<not> (input_type = Some ''series'' \<and>
                (dt \<in> set UNSUPPORTED_CUDF_DTYPES \<or> multidimensional shape)))
      then Rejected
      else
        case cp_ones shape dt ord of
          Inl e \<Rightarrow> Raised e
        | Inr array \<Rightarrow>
            if input_type = Some ''numpy'' then Returned (NumpyArray array)
            else if input_type = Some ''series'' then
              (case cudf_Series array of Inl e \<Rightarrow> Raised e | Inr s \<Rightarrow> Returned s)
            else if input_type = None \<or> input_type = Some ''cupy'' then Returned (CupyArray array)
            else Raised (unknown_input_type input_type))"

text \<open>
  \<^verbatim>\<open>CumlArray(data=array_input)\<close> wraps the container. The four arguments of
  \<^verbatim>\<open>create_cuml_array_input\<close> are drawn, left to right, before it is called.
\<close>

datatype cuml_array = CumlArray array_input

definition cuml_arrays ::
  "string option strategy \<Rightarrow> dtype strategy \<Rightarrow> shape_arg strategy \<Rightarrow> order strategy \<Rightarrow>
     cuml_array strategy" where
  "cuml_arrays input_types dtypes shapes orders =
     draw input_types (\<lambda>input_type.
     draw dtypes (\<lambda>dt.
     draw shapes (\<lambda>shape.
     draw orders (\<lambda>ord.
     draw {create_cuml_array_input input_type dt shape ord} (\<lambda>array_input.
     returns (CumlArray array_input))))))"

text \<open>The default of the \<^verbatim>\<open>shapes\<close> argument, \<^verbatim>\<open>array_shapes(max_dims=2)\<close>: one or two
  axes of sizes 1 to 6.\<close>

definition cuml_arrays_default_shapes :: "shape_arg strategy" where
  "cuml_arrays_default_shapes = map_strategy Tuple (array_shapes 1 2 1 6)"

section \<open>Datasets\<close>

text \<open>\<^verbatim>\<open>len(a)\<close>: the size of the first axis; an array without axes has no length.\<close>

definition py_len :: "ndarray \<Rightarrow> error + int" where
  "py_len a =
     (case arr_shape a of
        [] \<Rightarrow> Inl (TypeError ''len() of unsized object'')
      | n # rest \<Rightarrow> Inr (int n))"

definition floating_dtypes :: "dtype strategy" where
  "floating_dtypes = Returned ` {float16, float32, float64}"

text \<open>
  Modelled from the spec: \<^verbatim>\<open>hypothesis.extra.numpy.arrays\<close>, the random-array
  generation primitive, is not part of the repository: given a strategy of element types
  and a shape it produces an array of a drawn element type and of that shape, and refuses
  a negative axis.
\<close>

definition arrays :: "dtype strategy \<Rightarrow> int list \<Rightarrow> ndarray strategy" where
  "arrays dtypes shape =
     (if list_all (\<lambda>d. 0 \<le> d) shape
      then draw dtypes (\<lambda>dt.
             returns \<lparr>arr_dtype = dt, arr_shape = map nat shape, arr_order = OrderC\<rparr>)
      else raises (InvalidArgument ''Array shape must be non-negative''))"

definition standard_datasets ::
  "dtype strategy \<Rightarrow> int strategy \<Rightarrow> int strategy \<Rightarrow> int strategy \<Rightarrow>
     (ndarray \<times> ndarray) strategy" where
  "standard_datasets dtypes n_samples n_features n_targets =
     draw n_samples (\<lambda>xs.
     draw n_features (\<lambda>ys.
       let X = arrays dtypes [xs, ys] in
     draw n_targets (\<lambda>nt.
       let y = arrays dtypes [xs, nt] in
     draw X (\<lambda>Xv.
     draw y (\<lambda>yv.
     returns (Xv, yv))))))"

section \<open>Train/test splits\<close>

text \<open>
  The values a \<^verbatim>\<open>test_sizes\<close> strategy may yield: a Python \<^verbatim>\<open>int\<close>, a Python
  \<^verbatim>\<open>float\<close>, \<^verbatim>\<open>None\<close>, or a numpy integer scalar (which is not an instance of
  \<^verbatim>\<open>int\<close>). Floats are idealised as real numbers: products and differences are exact.
\<close>

datatype test_size =
    PyInt (int_value: int)
  | PyFloat (float_value: real)
  | PyNone
  | NpInt (np_value: int)

fun isinstance_float :: "test_size \<Rightarrow> bool" where
  "isinstance_float (PyFloat f) = True"
| "isinstance_float t = False"

fun isinstance_int :: "test_size \<Rightarrow> bool" where
  "isinstance_int (PyInt i) = True"
| "isinstance_int t = False"

text \<open>\<^verbatim>\<open>int(x)\<close> of a float: truncation towards zero.\<close>

definition py_int :: "real \<Rightarrow> int" where
  "py_int x = (if 0 \<le> x then \<lfloor>x\<rfloor> else \<lceil>x\<rceil>)"

type_synonym dataset = "ndarray \<times> ndarray"

type_synonym split = "ndarray \<times> ndarray \<times> ndarray \<times> ndarray"

text \<open>
  \<^verbatim>\<open>split_datasets\<close>. The partitioning primitive is an argument of the model: the code
  calls it last, on the dataset and the drawn test size, and returns what it returns.
  \<open>test_sizes\<close> is \<open>None\<close> when the caller leaves it out.
\<close>

definition split_datasets ::
  "(ndarray \<Rightarrow> ndarray \<Rightarrow> test_size \<Rightarrow> split outcome) \<Rightarrow>
     dataset strategy \<Rightarrow> test_size strategy option \<Rightarrow> split strategy" where
  "split_datasets train_test_split datasets test_sizes_arg =
     draw datasets (\<lambda>(X, y).
     try_eval (py_len X) (\<lambda>len_X.
     hyp_assume (1 < len_X) (
       let test_sizes =
         (case test_sizes_arg of
            None \<Rightarrow> map_strategy PyInt (integers 1 (max 1 (len_X - 1)))
          | Some s \<Rightarrow> s) in
     draw test_sizes (\<lambda>test_size.
       if isinstance_float test_size then
         hyp_assume (0 < py_int (of_int len_X * float_value test_size)) (
         hyp_assume (0 < py_int (of_int len_X * (1 - float_value test_size))) (
         {train_test_split X y test_size}))
       else if isinstance_int test_size then
         hyp_assume (1 < int_value test_size \<and> int_value test_size < len_X) (
         {train_test_split X y test_size})
       else
         {train_test_split X y test_size}))))"

text \<open>
  Modelled from the spec: the partitioning primitive,
  \<open>(X, y, test_size) \<rightarrow> (X_train, X_test, y_train, y_test)\<close>, is not part of the
  repository. The model follows the documented behaviour of
  \<^verbatim>\<open>sklearn.model_selection.train_test_split\<close>, the primitive the code calls: an
  integer test size is the number of test rows, a fractional one the proportion of test
  rows (rounded up), a missing one stands for 0.25, and the train rows are the rest. It
  refuses arrays of different lengths, a count outside \<open>(0, n)\<close>, a fraction outside
  \<open>(0, 1)\<close>, and an empty train set.
\<close>

definition validate_shuffle_split :: "int \<Rightarrow> test_size \<Rightarrow> error + (int \<times> int)" where
  "validate_shuffle_split n_samples test_size =
     (let ts = (case test_size of PyNone \<Rightarrow> PyFloat 0.25 | t \<Rightarrow> t);
          is_count = (case ts of PyFloat f \<Rightarrow> False | t \<Rightarrow> True);
          count = (case ts of PyInt i \<Rightarrow> i | NpInt i \<Rightarrow> i | t \<Rightarrow> 0);
          fraction = (case ts of PyFloat f \<Rightarrow> f | t \<Rightarrow> 0)
      in
        if is_count \<and> (n_samples \<le> count \<or> count \<le> 0) then
          Inl (ValueError ''test_size should be a positive integer smaller than the number of samples'')
        else if \<not> is_count \<and> (fraction \<le> 0 \<or> 1 \<le> fraction) then
          Inl (ValueError ''test_size should be a float in the (0, 1) range'')
        else
          let n_test = (if is_count then count else \<lceil>fraction * of_int n_samples\<rceil>);
              n_train = n_samples - n_test
          in
            if n_train = 0 then Inl (ValueError ''the resulting train set will be empty'')
            else Inr (n_train, n_test))"

definition take_rows :: "int \<Rightarrow> ndarray \<Rightarrow> ndarray" where
  "take_rows k a = a\<lparr>arr_shape := nat k # tl (arr_shape a)\<rparr>"

definition sklearn_train_test_split :: "ndarray \<Rightarrow> ndarray \<Rightarrow> test_size \<Rightarrow> split outcome" where
  "sklearn_train_test_split X y test_size =
     (case py_len X of
        Inl e \<Rightarrow> Raised e
      | Inr n_samples \<Rightarrow>
          (case py_len y of
             Inl e \<Rightarrow> Raised e
           | Inr n_y \<Rightarrow>
               if n_y \<noteq> n_samples then
                 Raised (ValueError ''Found input variables with inconsistent numbers of samples'')
               else
                 (case validate_shuffle_split n_samples test_size of
                    Inl e \<Rightarrow> Raised e
                  | Inr (n_train, n_test) \<Rightarrow>
                      Returned (take_rows n_train X, take_rows n_test X,
                                take_rows n_train y, take_rows n_test y))))"


section \<open>Regression datasets\<close>

text \<open>
  The keyword arguments \<^verbatim>\<open>standard_regression_datasets\<close> passes to
  \<^verbatim>\<open>sklearn.datasets.make_regression\<close>.
\<close>

record regression_args =
  arg_n_samples :: int
  arg_n_features :: int
  arg_n_informative :: int
  arg_n_targets :: int
  arg_bias :: real
  arg_effective_rank :: "int option"
  arg_tail_strength :: real
  arg_noise :: real
  arg_shuffle :: bool
  arg_random_state :: "int option"

text \<open>
  The first part of the body of \<^verbatim>\<open>standard_regression_datasets\<close>: the draws that build
  the arguments of the synthesizer, in the order the code makes them. \<open>n_informative\<close> is
  \<open>None\<close> when the caller leaves it out. The float product \<^verbatim>\<open>0.1 * n_features\<close> is
  idealised as a product of real numbers.
\<close>

definition regression_arguments ::
  "int strategy \<Rightarrow> int strategy \<Rightarrow> int strategy option \<Rightarrow> int strategy \<Rightarrow> real strategy \<Rightarrow>
     int option strategy \<Rightarrow> real strategy \<Rightarrow> real strategy \<Rightarrow> bool strategy \<Rightarrow> int option \<Rightarrow>
     regression_args strategy" where
  "regression_arguments n_samples n_features n_informative_arg n_targets bias effective_rank
       tail_strength noise shuffle random_state =
     draw n_features (\<lambda>n_features_v.
       let n_informative =
         (case n_informative_arg of
            None \<Rightarrow> just (max (min n_features_v 1) (py_int (0.1 * of_int n_features_v)))
          | Some s \<Rightarrow> s) in
     draw n_samples (\<lambda>v_samples.
     draw n_informative (\<lambda>v_informative.
     draw n_targets (\<lambda>v_targets.
     draw bias (\<lambda>v_bias.
     draw effective_rank (\<lambda>v_rank.
     draw tail_strength (\<lambda>v_tail.
     draw noise (\<lambda>v_noise.
     draw shuffle (\<lambda>v_shuffle.
     returns \<lparr>arg_n_samples = v_samples, arg_n_features = n_features_v,
              arg_n_informative = v_informative, arg_n_targets = v_targets,
              arg_bias = v_bias, arg_effective_rank = v_rank,
              arg_tail_strength = v_tail, arg_noise = v_noise,
              arg_shuffle = v_shuffle, arg_random_state = random_state\<rparr>)))))))))"

text \<open>
  The whole strategy: the synthesizer (an argument of the model) is called on the
  arguments, and both arrays are cast to one drawn element type.
\<close>

definition astype :: "ndarray \<Rightarrow> dtype \<Rightarrow> ndarray" where
  "astype a dt = a\<lparr>arr_dtype := dt\<rparr>"

definition standard_regression_datasets ::
  "(regression_args \<Rightarrow> dataset strategy) \<Rightarrow> dtype strategy \<Rightarrow>
     int strategy \<Rightarrow> int strategy \<Rightarrow> int strategy option \<Rightarrow> int strategy \<Rightarrow> real strategy \<Rightarrow>
     int option strategy \<Rightarrow> real strategy \<Rightarrow> real strategy \<Rightarrow> bool strategy \<Rightarrow> int option \<Rightarrow>
     dataset strategy" where
  "standard_regression_datasets make_regression dtypes n_samples n_features n_informative_arg
       n_targets bias effective_rank tail_strength noise shuffle random_state =
     draw (regression_arguments n_samples n_features n_informative_arg n_targets bias
             effective_rank tail_strength noise shuffle random_state) (\<lambda>args.
     draw (make_regression args) (\<lambda>(X, y).
     draw dtypes (\<lambda>dtype_v.
     returns (astype X dtype_v, astype y dtype_v))))"


section \<open>Optional imports\<close>

text \<open>
  \<^verbatim>\<open>cuml/common/import_utils.py\<close>. A \<^verbatim>\<open>MissingImport\<close> object stores one attribute,
  \<^verbatim>\<open>_msg\<close>, set by \<^verbatim>\<open>__init__\<close>.
\<close>

record MissingImport =
  msg_attr :: string

definition MissingImport_init :: "string \<Rightarrow> string option \<Rightarrow> MissingImport" where
  "MissingImport_init symbol msg =
     (case msg of
        None \<Rightarrow> \<lparr>msg_attr = symbol @ '' could not be imported''\<rparr>
      | Some m \<Rightarrow> \<lparr>msg_attr = m\<rparr>)"

text \<open>
  The methods \<^verbatim>\<open>__getattr__\<close> and \<^verbatim>\<open>__call__\<close>: both only raise, so the value they
  would give has no content.
\<close>

datatype attribute = InstanceAttribute string | TypeAttribute string

definition MissingImport_getattr :: "MissingImport \<Rightarrow> string \<Rightarrow> error + attribute" where
  "MissingImport_getattr self name = Inl (UnavailableImportError (msg_attr self))"

definition MissingImport_call :: "MissingImport \<Rightarrow> 'args \<Rightarrow> error + unit" where
  "MissingImport_call self args = Inl (UnavailableImportError (msg_attr self))"

text \<open>
  An attribute access \<^verbatim>\<open>obj.name\<close>. Python looks the name up on the instance and on its
  type first and calls \<^verbatim>\<open>__getattr__\<close> only when that lookup finds nothing; the
  statement \<^verbatim>\<open>raise UnavailableImportError(self._msg)\<close> itself reads the stored attribute
  that way. \<open>on_type\<close> tells which names the class and \<^verbatim>\<open>object\<close> provide.
\<close>

definition attribute_access :: "(string \<Rightarrow> bool) \<Rightarrow> MissingImport \<Rightarrow> string \<Rightarrow> error + attribute" where
  "attribute_access on_type self name =
     (if name = ''_msg'' then Inr (InstanceAttribute (msg_attr self))
      else if on_type name then Inr (TypeAttribute name)
      else MissingImport_getattr self name)"

text \<open>
  What \<^verbatim>\<open>importlib.import_module\<close> can raise: an instance of \<^verbatim>\<open>Exception\<close>
  (\<^verbatim>\<open>ImportError\<close> and anything else the module's top level raises), or of a class
  outside \<^verbatim>\<open>Exception\<close> (\<^verbatim>\<open>KeyboardInterrupt\<close>, \<^verbatim>\<open>SystemExit\<close>). Each carries the name
  of its class.
\<close>

datatype import_exception = ExceptionInstance string | BaseExceptionOnly string

datatype 'm imported = Module 'm | Placeholder MissingImport

text \<open>
  \<^verbatim>\<open>safe_import\<close>; the importer is an argument of the model. \<^verbatim>\<open>except Exception\<close>
  handles the instances of \<^verbatim>\<open>Exception\<close> and lets every other exception pass.
\<close>

definition safe_import ::
  "(string \<Rightarrow> import_exception + 'm) \<Rightarrow> string \<Rightarrow> string option \<Rightarrow> import_exception + 'm imported" where
  "safe_import import_module mod_name msg =
     (case import_module mod_name of
        Inr m \<Rightarrow> Inr (Module m)
      | Inl (ExceptionInstance c) \<Rightarrow> Inr (Placeholder (MissingImport_init mod_name msg))
      | Inl (BaseExceptionOnly c) \<Rightarrow> Inl (BaseExceptionOnly c))"

section \<open>Sampling: basic facts\<close>

lemma draw_iff:
  "out \<in> draw s k \<longleftrightarrow>
     (\<exists>v. Returned v \<in> s \<and> out \<in> k v) \<or> (out = Rejected \<and> Rejected \<in> s) \<or>
     (\<exists>e. out = Raised e \<and> Raised e \<in> s)"
proof -
  have "out \<in> draw s k \<longleftrightarrow>
      (\<exists>x\<in>s. out \<in> (case x of Returned v \<Rightarrow> k v | Rejected \<Rightarrow> {Rejected} | Raised e \<Rightarrow> {Raised e}))"
    by (simp add: draw_def)
  also have "\<dots> \<longleftrightarrow> (\<exists>v. Returned v \<in> s \<and> out \<in> k v) \<or> (out = Rejected \<and> Rejected \<in> s) \<or>
     (\<exists>e. out = Raised e \<and> Raised e \<in> s)"
  proof
    assume "\<exists>x\<in>s. out \<in> (case x of Returned v \<Rightarrow> k v | Rejected \<Rightarrow> {Rejected} | Raised e \<Rightarrow> {Raised e})"
    then obtain x where x: "x \<in> s"
      "out \<in> (case x of Returned v \<Rightarrow> k v | Rejected \<Rightarrow> {Rejected} | Raised e \<Rightarrow> {Raised e})"
      by blast
    then show "(\<exists>v. Returned v \<in> s \<and> out \<in> k v) \<or> (out = Rejected \<and> Rejected \<in> s) \<or>
     (\<exists>e. out = Raised e \<and> Raised e \<in> s)"
      by (cases x) auto
  next
    assume "(\<exists>v. Returned v \<in> s \<and> out \<in> k v) \<or> (out = Rejected \<and> Rejected \<in> s) \<or>
     (\<exists>e. out = Raised e \<and> Raised e \<in> s)"
    then show "\<exists>x\<in>s. out \<in> (case x of Returned v \<Rightarrow> k v | Rejected \<Rightarrow> {Rejected} | Raised e \<Rightarrow> {Raised e})"
      by (elim disjE exE conjE) force+
  qed
  finally show ?thesis .
qed

lemma draw_ReturnedI: "Returned v \<in> s \<Longrightarrow> out \<in> k v \<Longrightarrow> out \<in> draw s k"
  by (auto simp: draw_iff)

lemma Returned_draw_iff:
  "Returned r \<in> draw s k \<longleftrightarrow> (\<exists>v. Returned v \<in> s \<and> Returned r \<in> k v)"
  by (simp add: draw_iff)

lemma draw_Returned [simp]: "draw {Returned v} k = k v"
  by (simp add: draw_def)

lemma draw_Rejected [simp]: "draw {Rejected} k = {Rejected}"
  by (simp add: draw_def)

lemma draw_Raised [simp]: "draw {Raised e} k = {Raised e}"
  by (simp add: draw_def)

lemma draw_returns_id [simp]: "draw s (\<lambda>v. returns v) = s"
proof (rule set_eqI)
  fix out :: "'a outcome"
  show "out \<in> draw s (\<lambda>v. returns v) \<longleftrightarrow> out \<in> s"
    by (cases out) (auto simp: draw_iff returns_def)
qed

lemma Returned_array_shapes_iff:
  "Returned shape \<in> array_shapes a b c d \<longleftrightarrow>
     0 \<le> a \<and> a \<le> b \<and> b \<le> 32 \<and> 0 \<le> c \<and> c \<le> d \<and> shape_within a b c d shape"
  by (auto simp: array_shapes_def)

lemma Returned_arrays_iff:
  "Returned a \<in> arrays dtypes shape \<longleftrightarrow>
     list_all (\<lambda>d. 0 \<le> d) shape \<and>
     (\<exists>dt. Returned dt \<in> dtypes \<and>
        a = \<lparr>arr_dtype = dt, arr_shape = map nat shape, arr_order = OrderC\<rparr>)"
  by (auto simp: arrays_def Returned_draw_iff returns_def raises_def)

lemma Returned_cuml_array_shapes_body:
  assumes "Returned shape \<in> cuml_array_shapes_body (a, b, c, d)"
  shows "a \<le> int (length shape) \<and> int (length shape) \<le> b \<and>
      (\<forall>ax\<in>set shape. c \<le> ax \<and> ax \<le> (case d of None \<Rightarrow> 10 | Some m \<Rightarrow> m))"
  using assms
  by (auto simp: cuml_array_shapes_body_def raises_def Let_def
      Returned_array_shapes_iff shape_within_def list_all_iff split: if_splits)

section \<open>Shapes: when the bounds are checked, and what is produced\<close>

text \<open>
  C3, as the code has it. Calling \<^verbatim>\<open>cuml_array_shapes\<close> never raises: it returns a
  strategy, whatever the bounds. The bounds are checked when that strategy is sampled:
  with \<open>min_dims < 1\<close> or \<open>min_dims > max_dims\<close> every sampling attempt raises the first
  \<^verbatim>\<open>ValueError\<close>, and otherwise, with \<open>min_side\<close> not strictly between 0 and \<open>max_side\<close>
  (10 when left out), every attempt raises the second; in both cases that exception is
  the only outcome, so nothing is drawn from \<^verbatim>\<open>array_shapes\<close>.
\<close>

theorem cuml_array_shapes_validates_when_sampled:
  "\<exists>s. cuml_array_shapes (min_dims, max_dims, min_side, max_side) = Inr s \<and>
    (\<not> (1 \<le> min_dims \<and> min_dims \<le> max_dims) \<longrightarrow>
       s = {Raised (ValueError ''Arguments violate condition 1 <= min_dims <= max_dims.'')}) \<and>
    (1 \<le> min_dims \<and> min_dims \<le> max_dims \<and>
       \<not> (0 < min_side \<and> min_side < (case max_side of None \<Rightarrow> 10 | Some m \<Rightarrow> m)) \<longrightarrow>
       s = {Raised (ValueError ''Arguments violate condition 0 < min_side < max_side.'')})"
  by (simp add: cuml_array_shapes_def composite_def cuml_array_shapes_body_def raises_def Let_def)

theorem cuml_array_shapes_validates_when_sampled_witness:
  "(\<exists>s. cuml_array_shapes (3, 2, 1, None) = Inr s \<and>
      s = {Raised (ValueError ''Arguments violate condition 1 <= min_dims <= max_dims.'')}) \<and>
   (\<exists>s. cuml_array_shapes (1, 2, 10, Some 10) = Inr s \<and>
      s = {Raised (ValueError ''Arguments violate condition 0 < min_side < max_side.'')})"
  using cuml_array_shapes_validates_when_sampled [of 3 2 1 None]
    cuml_array_shapes_validates_when_sampled [of 1 2 10 "Some 10"]
  by simp

text \<open>
  C3 as stated fails: constructing the strategy with \<open>min_dims = 3\<close>, \<open>max_dims = 2\<close>
  raises nothing and returns a strategy; the error is the outcome of sampling it.
\<close>

theorem cuml_array_shapes_construction_does_not_raise:
  "cuml_array_shapes (3, 2, 1, None) =
     Inr {Raised (ValueError ''Arguments violate condition 1 <= min_dims <= max_dims.'')}"
  by (simp add: cuml_array_shapes_def composite_def cuml_array_shapes_body_def raises_def)

text \<open>
  C4. Every shape that a strategy built by \<^verbatim>\<open>cuml_array_shapes\<close> yields has between
  \<open>min_dims\<close> and \<open>max_dims\<close> axes, each of a size between \<open>min_side\<close> and \<open>max_side\<close>
  (10 when left out); with the bounds 1, 2, 1, 10 no shape has 0 or 3 axes, or an axis
  of size 0 or 11.
\<close>

theorem cuml_array_shapes_within_bounds:
  "(cuml_array_shapes (min_dims, max_dims, min_side, max_side) = Inr s \<and> Returned shape \<in> s \<longrightarrow>
      min_dims \<le> int (length shape) \<and> int (length shape) \<le> max_dims \<and>
      (\<forall>ax\<in>set shape. min_side \<le> ax \<and> ax \<le> (case max_side of None \<Rightarrow> 10 | Some m \<Rightarrow> m))) \<and>
   (cuml_array_shapes (1, 2, 1, Some 10) = Inr s1 \<and> Returned shape1 \<in> s1 \<longrightarrow>
      length shape1 \<noteq> 0 \<and> length shape1 \<noteq> 3 \<and> 0 \<notin> set shape1 \<and> 11 \<notin> set shape1)"
proof (rule conjI; rule impI; elim conjE)
  assume "cuml_array_shapes (min_dims, max_dims, min_side, max_side) = Inr s"
    and "Returned shape \<in> s"
  then have "Returned shape \<in> cuml_array_shapes_body (min_dims, max_dims, min_side, max_side)"
    by (simp add: cuml_array_shapes_def composite_def)
  then show "min_dims \<le> int (length shape) \<and> int (length shape) \<le> max_dims \<and>
      (\<forall>ax\<in>set shape. min_side \<le> ax \<and> ax \<le> (case max_side of None \<Rightarrow> 10 | Some m \<Rightarrow> m))"
    by (rule Returned_cuml_array_shapes_body)
next
  assume "cuml_array_shapes (1, 2, 1, Some 10) = Inr s1" and "Returned shape1 \<in> s1"
  then have "Returned shape1 \<in> cuml_array_shapes_body (1, 2, 1, Some 10)"
    by (simp add: cuml_array_shapes_def composite_def)
  from Returned_cuml_array_shapes_body [OF this]
  have len: "1 \<le> int (length shape1)" "int (length shape1) \<le> 2"
    and ax: "\<forall>ax\<in>set shape1. 1 \<le> ax \<and> ax \<le> 10"
    by simp_all
  from len have "length shape1 \<noteq> 0 \<and> length shape1 \<noteq> 3" by auto
  moreover from ax have "0 \<notin> set shape1 \<and> 11 \<notin> set shape1" by fastforce
  ultimately show "length shape1 \<noteq> 0 \<and> length shape1 \<noteq> 3 \<and> 0 \<notin> set shape1 \<and> 11 \<notin> set shape1"
    by simp
qed

theorem cuml_array_shapes_within_bounds_witness:
  "cuml_array_shapes (1, 2, 1, None) = Inr (cuml_array_shapes_body (1, 2, 1, None)) \<and>
   Returned [2, 10] \<in> cuml_array_shapes_body (1, 2, 1, None) \<and>
   (1::int) \<le> int (length [2, 10 :: int]) \<and> int (length [2, 10 :: int]) \<le> 2 \<and>
   list_all (\<lambda>ax. 1 \<le> ax \<and> ax \<le> 10) [2, 10 :: int]"
proof -
  have c: "cuml_array_shapes (1, 2, 1, None) = Inr (cuml_array_shapes_body (1, 2, 1, None))"
    by (simp add: cuml_array_shapes_def composite_def)
  have m: "Returned [2, 10] \<in> cuml_array_shapes_body (1, 2, 1, None)"
    by (simp add: cuml_array_shapes_body_def Returned_array_shapes_iff shape_within_def)
  from cuml_array_shapes_within_bounds
    [of 1 2 1 None "cuml_array_shapes_body (1, 2, 1, None)" "[2, 10]"] c m
  show ?thesis by (simp add: list_all_iff)
qed

section \<open>Array inputs\<close>

lemma axes_multidimensional:
  "1 < length (filter (\<lambda>d. 1 < d) (dims_of shape)) \<longleftrightarrow> multidimensional shape"
  by (cases shape) (simp_all add: multidimensional_def dims_of_def)

lemma create_series_rejected:
  "dt \<in> set UNSUPPORTED_CUDF_DTYPES \<or> multidimensional shape \<Longrightarrow>
   create_cuml_array_input (Some ''series'') dt shape ord = Rejected"
  by (simp add: create_cuml_array_input_def)

text \<open>
  C6. A call of \<^verbatim>\<open>create_cuml_array_input\<close> with input type \<^verbatim>\<open>'series'\<close> and an element
  type among uint8, uint16, uint32, uint64, float16, or a shape with more than one axis
  of size above 1, is a rejection, not an exception. Hence \<^verbatim>\<open>cuml_arrays\<close> restricted to
  \<^verbatim>\<open>'series'\<close> and float16 never yields a value: every sampling attempt is rejected,
  unless the strategy of shapes or of orders itself raised; with the default shapes and
  orders rejection is the only outcome.
\<close>

theorem series_unsupported_rejected:
  "(input_type = Some ''series'' \<and>
      (dt \<in> {uint8, uint16, uint32, uint64, float16} \<or>
       1 < length (filter (\<lambda>d. 1 < d) (dims_of shape))) \<longrightarrow>
      create_cuml_array_input input_type dt shape ord = Rejected) \<and>
   (\<forall>out \<in> cuml_arrays (just (Some ''series'')) (just float16) shapes orders.
      out = Rejected \<or> (\<exists>e. out = Raised e \<and> (Raised e \<in> shapes \<or> Raised e \<in> orders))) \<and>
   cuml_arrays (just (Some ''series'')) (just float16) cuml_arrays_default_shapes cuml_array_orders
     = {Rejected}"
proof (intro conjI)
  show "input_type = Some ''series'' \<and>
      (dt \<in> {uint8, uint16, uint32, uint64, float16} \<or>
       1 < length (filter (\<lambda>d. 1 < d) (dims_of shape))) \<longrightarrow>
      create_cuml_array_input input_type dt shape ord = Rejected"
    using create_series_rejected [of dt shape ord] axes_multidimensional [of shape]
    by (auto simp: UNSUPPORTED_CUDF_DTYPES_def)
  have rej: "create_cuml_array_input (Some ''series'') float16 shape' ord' = Rejected"
    for shape' ord'
    by (rule create_series_rejected) (simp add: UNSUPPORTED_CUDF_DTYPES_def)
  have eq: "cuml_arrays (just (Some ''series'')) (just float16) shapes' orders'
      = draw shapes' (\<lambda>shape. draw orders' (\<lambda>ord. {Rejected}))" for shapes' orders'
    by (simp add: cuml_arrays_def just_def rej)
  show "\<forall>out \<in> cuml_arrays (just (Some ''series'')) (just float16) shapes orders.
      out = Rejected \<or> (\<exists>e. out = Raised e \<and> (Raised e \<in> shapes \<or> Raised e \<in> orders))"
    unfolding eq by (auto simp: draw_iff)
  have orders: "cuml_array_orders = {Returned OrderF, Returned OrderC}"
    by (simp add: cuml_array_orders_def sampled_from_def CUML_ARRAY_ORDERS_def)
  have "Returned (Tuple [1]) \<in> cuml_arrays_default_shapes"
    by (simp add: cuml_arrays_default_shapes_def map_strategy_def Returned_draw_iff
        Returned_array_shapes_iff shape_within_def returns_def)
  moreover have "Rejected \<notin> cuml_arrays_default_shapes"
    by (auto simp: cuml_arrays_default_shapes_def map_strategy_def draw_iff array_shapes_def
        returns_def)
  moreover have "Raised e \<notin> cuml_arrays_default_shapes" for e
    by (auto simp: cuml_arrays_default_shapes_def map_strategy_def draw_iff array_shapes_def
        returns_def)
  ultimately show "cuml_arrays (just (Some ''series'')) (just float16) cuml_arrays_default_shapes
      cuml_array_orders = {Rejected}"
    unfolding eq orders by (auto simp: draw_iff)
qed

theorem series_unsupported_rejected_witness:
  "create_cuml_array_input (Some ''series'') uint32 (Tuple [5]) OrderC = Rejected \<and>
   create_cuml_array_input (Some ''series'') float64 (Tuple [2, 3]) OrderF = Rejected \<and>
   Rejected \<in> cuml_arrays (just (Some ''series'')) (just float16) (just (Tuple [4])) (just OrderC)"
proof -
  have "Rejected \<in> cuml_arrays (just (Some ''series'')) (just float16) (just (Tuple [4]))
      (just OrderC)"
    by (simp add: cuml_arrays_def just_def create_cuml_array_input_def
        UNSUPPORTED_CUDF_DTYPES_def)
  with series_unsupported_rejected [of "Some ''series''" uint32 "Tuple [5]" OrderC
      "just (Tuple [4])" "just OrderC"]
    series_unsupported_rejected [of "Some ''series''" float64 "Tuple [2, 3]" OrderF
      "just (Tuple [4])" "just OrderC"]
  show ?thesis by (simp add: dims_of_def)
qed

text \<open>
  C8. For an input type other than \<^verbatim>\<open>'numpy'\<close>, \<^verbatim>\<open>'series'\<close>, \<^verbatim>\<open>'cupy'\<close> and \<^verbatim>\<open>None\<close>,
  \<^verbatim>\<open>create_cuml_array_input\<close> raises a \<^verbatim>\<open>ValueError\<close> (and does not reject): the
  "Unknown input_type" error whenever the array itself can be built. For the four
  recognised input types that error is never raised.
\<close>

theorem create_cuml_array_input_unknown_input_type:
  "(input_type \<notin> {Some ''numpy'', Some ''series'', Some ''cupy'', None} \<longrightarrow>
      (\<exists>msg. create_cuml_array_input input_type dt shape ord = Raised (ValueError msg)) \<and>
      (list_all (\<lambda>d. 0 \<le> d) (dims_of shape) \<longrightarrow>
         create_cuml_array_input input_type dt shape ord
           = Raised (unknown_input_type input_type))) \<and>
   (input_type \<in> {Some ''numpy'', Some ''series'', Some ''cupy'', None} \<longrightarrow>
      create_cuml_array_input input_type dt shape ord \<noteq> Raised (unknown_input_type input_type))"
  by (auto simp: create_cuml_array_input_def cp_ones_def cudf_Series_def unknown_input_type_def)

theorem create_cuml_array_input_unknown_input_type_witness:
  "create_cuml_array_input (Some ''pandas'') float32 (Tuple [2, 3]) OrderC
     = Raised (ValueError (''Unknown input_type '' @ [CHR 0x27] @ ''pandas.'')) \<and>
   create_cuml_array_input (Some ''numpy'') float32 (Tuple [2, 3]) OrderC
     \<noteq> Raised (unknown_input_type (Some ''numpy'')) \<and>
   create_cuml_array_input None float32 (Tuple [2, 3]) OrderC
     \<noteq> Raised (unknown_input_type None)"
  using create_cuml_array_input_unknown_input_type
      [of "Some ''pandas''" float32 "Tuple [2, 3]" OrderC]
    create_cuml_array_input_unknown_input_type
      [of "Some ''numpy''" float32 "Tuple [2, 3]" OrderC]
    create_cuml_array_input_unknown_input_type [of None float32 "Tuple [2, 3]" OrderC]
  by (simp add: dims_of_def unknown_input_type_def str_of_input_type_def)

section \<open>Datasets: the leading dimension\<close>

text \<open>
  C7. Every dataset \<open>(X, y)\<close> that \<^verbatim>\<open>standard_datasets\<close> yields has \<open>X\<close> of shape
  \<open>(n_samples, n_features)\<close> and \<open>y\<close> of shape \<open>(n_samples, n_targets)\<close> for one and the
  same drawn \<open>n_samples\<close>, so \<open>len(X) = len(y)\<close>.
\<close>

theorem standard_datasets_leading_dimension:
  assumes "Returned (X, y) \<in> standard_datasets dtypes n_samples n_features n_targets"
  shows "\<exists>xs ys nt. Returned xs \<in> n_samples \<and> Returned ys \<in> n_features \<and>
     Returned nt \<in> n_targets \<and> 0 \<le> xs \<and> 0 \<le> ys \<and> 0 \<le> nt \<and>
     arr_shape X = [nat xs, nat ys] \<and> arr_shape y = [nat xs, nat nt] \<and>
     py_len X = Inr xs \<and> py_len y = Inr xs"
proof -
  from assms obtain xs ys nt Xv yv where d:
    "Returned xs \<in> n_samples" "Returned ys \<in> n_features" "Returned nt \<in> n_targets"
    "Returned Xv \<in> arrays dtypes [xs, ys]" "Returned yv \<in> arrays dtypes [xs, nt]"
    "Returned (X, y) \<in> returns (Xv, yv)"
    unfolding standard_datasets_def Returned_draw_iff Let_def by blast
  from d(6) have "X = Xv" "y = yv" by (simp_all add: returns_def)
  with d(4,5) have "0 \<le> xs \<and> 0 \<le> ys \<and> 0 \<le> nt \<and>
     arr_shape X = [nat xs, nat ys] \<and> arr_shape y = [nat xs, nat nt]"
    by (auto simp: Returned_arrays_iff)
  then have "0 \<le> xs \<and> 0 \<le> ys \<and> 0 \<le> nt \<and>
     arr_shape X = [nat xs, nat ys] \<and> arr_shape y = [nat xs, nat nt] \<and>
     py_len X = Inr xs \<and> py_len y = Inr xs"
    by (simp add: py_len_def)
  with d(1,2,3) show ?thesis by blast
qed

theorem standard_datasets_leading_dimension_witness:
  "Returned (\<lparr>arr_dtype = float32, arr_shape = [3, 2], arr_order = OrderC\<rparr>,
             \<lparr>arr_dtype = float32, arr_shape = [3, 1], arr_order = OrderC\<rparr>)
     \<in> standard_datasets (just float32) (just 3) (just 2) (just 1) \<and>
   py_len \<lparr>arr_dtype = float32, arr_shape = [3, 2], arr_order = OrderC\<rparr> = Inr 3 \<and>
   py_len \<lparr>arr_dtype = float32, arr_shape = [3, 1], arr_order = OrderC\<rparr> = Inr 3"
proof -
  have m: "Returned (\<lparr>arr_dtype = float32, arr_shape = [3, 2], arr_order = OrderC\<rparr>,
             \<lparr>arr_dtype = float32, arr_shape = [3, 1], arr_order = OrderC\<rparr>)
     \<in> standard_datasets (just float32) (just 3) (just 2) (just 1)"
    by (simp add: standard_datasets_def just_def arrays_def returns_def)
  from standard_datasets_leading_dimension [OF m] m show ?thesis
    by (auto simp: just_def)
qed

section \<open>Train/test splits\<close>

lemma validate_shuffle_split_sizes:
  assumes "validate_shuffle_split n ts = Inr (a, b)" and "0 < n"
  shows "1 \<le> a \<and> 1 \<le> b \<and> a + b = n"
proof (cases ts)
  case (PyInt i)
  with assms show ?thesis
    by (auto simp: validate_shuffle_split_def Let_def split: if_splits)
next
  case (NpInt i)
  with assms show ?thesis
    by (auto simp: validate_shuffle_split_def Let_def split: if_splits)
next
  case (PyFloat f)
  with assms have f: "0 < f" "f < 1" and b: "b = \<lceil>f * of_int n\<rceil>" and a: "a = n - b" "a \<noteq> 0"
    by (auto simp: validate_shuffle_split_def Let_def split: if_splits)
  from f assms(2) have "0 < f * of_int n" by simp
  then have b1: "1 \<le> b" unfolding b by linarith
  from f assms(2) have "f * of_int n \<le> of_int n"
    by (simp add: mult_le_cancel_right1)
  then have "b \<le> n" unfolding b by (simp add: ceiling_le_iff)
  with a b1 show ?thesis by simp
next
  case PyNone
  with assms have b: "b = \<lceil>0.25 * (of_int n :: real)\<rceil>" and a: "a = n - b" "a \<noteq> 0"
    by (auto simp: validate_shuffle_split_def Let_def split: if_splits)
  from assms(2) have "0 < 0.25 * (of_int n :: real)" by simp
  then have b1: "1 \<le> b" unfolding b by linarith
  from assms(2) have "0.25 * (of_int n :: real) \<le> of_int n" by simp
  then have "b \<le> n" unfolding b by (simp add: ceiling_le_iff)
  with a b1 show ?thesis by simp
qed

lemma py_len_take_rows: "0 \<le> k \<Longrightarrow> py_len (take_rows k a) = Inr k"
  by (simp add: py_len_def take_rows_def)


lemma Returned_split_datasets_checked:
  assumes "Returned sp \<in> split_datasets tts datasets test_sizes"
  shows "\<exists>X y n ts. Returned (X, y) \<in> datasets \<and> py_len X = Inr n \<and> 1 < n \<and>
           Returned ts \<in> (case test_sizes of
                None \<Rightarrow> map_strategy PyInt (integers 1 (max 1 (n - 1))) | Some s \<Rightarrow> s) \<and>
           (isinstance_float ts \<longrightarrow> 0 < py_int (of_int n * float_value ts) \<and>
              0 < py_int (of_int n * (1 - float_value ts))) \<and>
           (isinstance_int ts \<longrightarrow> 1 < int_value ts \<and> int_value ts < n) \<and>
           tts X y ts = Returned sp"
proof -
  from assms obtain d where d: "Returned d \<in> datasets"
    and r1: "Returned sp \<in> (case d of (X, y) \<Rightarrow>
       try_eval (py_len X) (\<lambda>len_X. hyp_assume (1 < len_X)
         (let test_sizes = (case test_sizes of
                None \<Rightarrow> map_strategy PyInt (integers 1 (max 1 (len_X - 1))) | Some s \<Rightarrow> s)
          in draw test_sizes (\<lambda>test_size.
               if isinstance_float test_size then
                 hyp_assume (0 < py_int (of_int len_X * float_value test_size)) (
                 hyp_assume (0 < py_int (of_int len_X * (1 - float_value test_size))) (
                 {tts X y test_size}))
               else if isinstance_int test_size then
                 hyp_assume (1 < int_value test_size \<and> int_value test_size < len_X) (
                 {tts X y test_size})
               else {tts X y test_size}))))"
    unfolding split_datasets_def Returned_draw_iff by blast
  obtain X y where Xy: "d = (X, y)" by (cases d)
  from r1 obtain n where n: "py_len X = Inr n"
    unfolding Xy by (cases "py_len X") (simp_all add: try_eval_def)
  from r1 have n1: "1 < n"
    unfolding Xy by (simp add: n try_eval_def hyp_assume_def split: if_splits)
  from r1 obtain ts where ts: "Returned ts \<in> (case test_sizes of
                None \<Rightarrow> map_strategy PyInt (integers 1 (max 1 (n - 1))) | Some s \<Rightarrow> s)"
    and r2: "Returned sp \<in> (if isinstance_float ts then
                 hyp_assume (0 < py_int (of_int n * float_value ts)) (
                 hyp_assume (0 < py_int (of_int n * (1 - float_value ts))) (
                 {tts X y ts}))
               else if isinstance_int ts then
                 hyp_assume (1 < int_value ts \<and> int_value ts < n) (
                 {tts X y ts})
               else {tts X y ts})"
    unfolding Xy
    by (auto simp: n n1 try_eval_def hyp_assume_def Let_def Returned_draw_iff)
  have "(isinstance_float ts \<longrightarrow> 0 < py_int (of_int n * float_value ts) \<and>
              0 < py_int (of_int n * (1 - float_value ts))) \<and>
           (isinstance_int ts \<longrightarrow> 1 < int_value ts \<and> int_value ts < n) \<and>
           tts X y ts = Returned sp"
    using r2 by (cases ts) (auto simp: hyp_assume_def split: if_splits)
  with d n n1 ts show ?thesis unfolding Xy by blast
qed



lemma sklearn_split_sizes:
  assumes "sklearn_train_test_split X y ts = Returned (X_train, X_test, y_train, y_test)"
    and "py_len X = Inr n" and "0 < n"
  shows "\<exists>n_train n_test. py_len X_train = Inr n_train \<and> py_len X_test = Inr n_test \<and>
           1 \<le> n_train \<and> 1 \<le> n_test \<and> n_train + n_test = n"
proof -
  from assms(1,2) obtain a b where v: "validate_shuffle_split n ts = Inr (a, b)"
    and r: "X_train = take_rows a X" "X_test = take_rows b X"
    by (auto simp: sklearn_train_test_split_def split: sum.splits if_splits)
  from validate_shuffle_split_sizes [OF v assms(3)] have s: "1 \<le> a" "1 \<le> b" "a + b = n"
    by simp_all
  then show ?thesis unfolding r by (auto simp: py_len_take_rows)
qed

text \<open>
  With the model of sklearn's primitive the same holds for every kind of drawn test size,
  the unchecked ones included: the primitive itself refuses a test size that would leave
  a partition empty.
\<close>

theorem sklearn_split_datasets_nonempty_partitions:
  assumes "Returned (X_train, X_test, y_train, y_test)
             \<in> split_datasets sklearn_train_test_split datasets test_sizes"
  shows "\<exists>X y n n_train n_test. Returned (X, y) \<in> datasets \<and> py_len X = Inr n \<and>
           py_len X_train = Inr n_train \<and> py_len X_test = Inr n_test \<and>
           1 \<le> n_train \<and> 1 \<le> n_test \<and> n_train + n_test = n"
proof -
  from Returned_split_datasets_checked [OF assms] obtain X y n ts where
    d: "Returned (X, y) \<in> datasets" "py_len X = Inr n" "1 < n"
       "sklearn_train_test_split X y ts = Returned (X_train, X_test, y_train, y_test)"
    by blast
  from d(3) have "0 < n" by simp
  from sklearn_split_sizes [OF d(4) d(2) this] d(1,2) show ?thesis by blast
qed

theorem sklearn_split_datasets_nonempty_partitions_witness:
  "Returned (\<lparr>arr_dtype = float64, arr_shape = [3, 2], arr_order = OrderC\<rparr>,
             \<lparr>arr_dtype = float64, arr_shape = [1, 2], arr_order = OrderC\<rparr>,
             \<lparr>arr_dtype = float64, arr_shape = [3, 1], arr_order = OrderC\<rparr>,
             \<lparr>arr_dtype = float64, arr_shape = [1, 1], arr_order = OrderC\<rparr>)
     \<in> split_datasets sklearn_train_test_split
          (just (\<lparr>arr_dtype = float64, arr_shape = [4, 2], arr_order = OrderC\<rparr>,
                 \<lparr>arr_dtype = float64, arr_shape = [4, 1], arr_order = OrderC\<rparr>))
          (Some (just PyNone)) \<and>
   py_len \<lparr>arr_dtype = float64, arr_shape = [3, 2], arr_order = OrderC\<rparr> = Inr 3 \<and>
   py_len \<lparr>arr_dtype = float64, arr_shape = [1, 2], arr_order = OrderC\<rparr> = Inr 1 \<and>
   py_len \<lparr>arr_dtype = float64, arr_shape = [4, 2], arr_order = OrderC\<rparr> = Inr 4"
proof -
  let ?X = "\<lparr>arr_dtype = float64, arr_shape = [4, 2], arr_order = OrderC\<rparr>"
  let ?y = "\<lparr>arr_dtype = float64, arr_shape = [4, 1], arr_order = OrderC\<rparr>"
  let ?sp = "(\<lparr>arr_dtype = float64, arr_shape = [3, 2], arr_order = OrderC\<rparr>,
             \<lparr>arr_dtype = float64, arr_shape = [1, 2], arr_order = OrderC\<rparr>,
             \<lparr>arr_dtype = float64, arr_shape = [3, 1], arr_order = OrderC\<rparr>,
             \<lparr>arr_dtype = float64, arr_shape = [1, 1], arr_order = OrderC\<rparr>)"
  have m: "Returned ?sp \<in> split_datasets sklearn_train_test_split (just (?X, ?y))
             (Some (just PyNone))"
    by (simp add: split_datasets_def just_def try_eval_def hyp_assume_def py_len_def
        sklearn_train_test_split_def validate_shuffle_split_def take_rows_def)
  from sklearn_split_datasets_nonempty_partitions [OF m] m show ?thesis
    by (auto simp: just_def py_len_def)
qed

text \<open>
  C2. On a dataset of exactly two rows with the default test sizes the code draws the
  count 1, the only value of \<^verbatim>\<open>integers(1, max(1, len(X) - 1))\<close>, and then discards the
  sample, since \<^verbatim>\<open>assume(1 < test_size < len(X))\<close> fails: rejection is the only outcome,
  and no split of one train and one test row is ever returned.
\<close>

theorem split_datasets_two_rows_default_rejected:
  assumes "py_len X = Inr 2"
  shows "split_datasets tts (just (X, y)) None = {Rejected}"
  using assms
  by (simp add: split_datasets_def just_def try_eval_def hyp_assume_def integers_def
      map_strategy_def returns_def)


theorem split_datasets_two_rows_default_rejected_witness:
  "py_len \<lparr>arr_dtype = float32, arr_shape = [2, 3], arr_order = OrderC\<rparr> = Inr 2 \<and>
   split_datasets sklearn_train_test_split
     (just (\<lparr>arr_dtype = float32, arr_shape = [2, 3], arr_order = OrderC\<rparr>,
            \<lparr>arr_dtype = float32, arr_shape = [2, 1], arr_order = OrderC\<rparr>)) None
     = {Rejected} \<and>
   sklearn_train_test_split \<lparr>arr_dtype = float32, arr_shape = [2, 3], arr_order = OrderC\<rparr>
     \<lparr>arr_dtype = float32, arr_shape = [2, 1], arr_order = OrderC\<rparr> (PyInt 1)
     = Returned (\<lparr>arr_dtype = float32, arr_shape = [1, 3], arr_order = OrderC\<rparr>,
                 \<lparr>arr_dtype = float32, arr_shape = [1, 3], arr_order = OrderC\<rparr>,
                 \<lparr>arr_dtype = float32, arr_shape = [1, 1], arr_order = OrderC\<rparr>,
                 \<lparr>arr_dtype = float32, arr_shape = [1, 1], arr_order = OrderC\<rparr>)"
proof -
  have l: "py_len \<lparr>arr_dtype = float32, arr_shape = [2, 3], arr_order = OrderC\<rparr> = Inr 2"
    by (simp add: py_len_def)
  from split_datasets_two_rows_default_rejected [OF l] l show ?thesis
    by (simp add: sklearn_train_test_split_def validate_shuffle_split_def take_rows_def py_len_def)
qed

lemma split_datasets_unvalidated_just:
  assumes "\<not> isinstance_int test_size" and "\<not> isinstance_float test_size"
    and "py_len X = Inr n" and "1 < n"
  shows "split_datasets tts (just (X, y)) (Some (just test_size)) = {tts X y test_size}"
  using assms by (simp add: split_datasets_def just_def try_eval_def hyp_assume_def)

lemma split_datasets_unvalidated_member:
  assumes "\<not> isinstance_int test_size" and "\<not> isinstance_float test_size"
    and "py_len X = Inr n" and "1 < n" and "Returned (X, y) \<in> datasets" "Returned test_size \<in> test_sizes"
  shows "tts X y test_size \<in> split_datasets tts datasets (Some test_sizes)"
proof -
  have "tts X y test_size \<in> draw test_sizes (\<lambda>test_size.
               if isinstance_float test_size then
                 hyp_assume (0 < py_int (of_int n * float_value test_size)) (
                 hyp_assume (0 < py_int (of_int n * (1 - float_value test_size))) (
                 {tts X y test_size}))
               else if isinstance_int test_size then
                 hyp_assume (1 < int_value test_size \<and> int_value test_size < n) (
                 {tts X y test_size})
               else {tts X y test_size})"
    by (rule draw_ReturnedI [OF assms(6)]) (simp add: assms(1,2))
  then show ?thesis
    unfolding split_datasets_def
    by (intro draw_ReturnedI [OF assms(5)]) (simp add: try_eval_def hyp_assume_def assms(3,4))
qed

text \<open>
  C10. When the value drawn from a supplied \<^verbatim>\<open>test_sizes\<close> strategy is neither a Python
  int nor a Python float (\<^verbatim>\<open>None\<close>, a numpy integer), and the dataset has more than one
  row, no check is applied: the outcome of the sampling attempt is whatever the
  partitioning primitive does on the dataset and that value.
\<close>

theorem split_datasets_unvalidated_test_size:
  assumes "\<not> isinstance_int test_size" and "\<not> isinstance_float test_size"
    and "Returned (X, y) \<in> datasets" and "py_len X = Inr n" and "1 < n"
    and "Returned test_size \<in> test_sizes"
  shows "train_test_split X y test_size
           \<in> split_datasets train_test_split datasets (Some test_sizes) \<and>
         split_datasets train_test_split (just (X, y)) (Some (just test_size))
           = {train_test_split X y test_size}"
  using split_datasets_unvalidated_just [OF assms(1,2,4,5)] split_datasets_unvalidated_member [OF assms(1,2,4,5,3,6)] by simp

theorem split_datasets_unvalidated_test_size_witness:
  "\<not> isinstance_int (NpInt 5) \<and> \<not> isinstance_float (NpInt 5) \<and>
   split_datasets sklearn_train_test_split
     (just (\<lparr>arr_dtype = float32, arr_shape = [3, 2], arr_order = OrderC\<rparr>,
            \<lparr>arr_dtype = float32, arr_shape = [3, 1], arr_order = OrderC\<rparr>))
     (Some (just (NpInt 5)))
   = {Raised (ValueError
        ''test_size should be a positive integer smaller than the number of samples'')}"
proof -
  let ?X = "\<lparr>arr_dtype = float32, arr_shape = [3, 2], arr_order = OrderC\<rparr>"
  let ?y = "\<lparr>arr_dtype = float32, arr_shape = [3, 1], arr_order = OrderC\<rparr>"
  have l: "py_len ?X = Inr 3" by (simp add: py_len_def)
  have "sklearn_train_test_split ?X ?y (NpInt 5) = Raised (ValueError
        ''test_size should be a positive integer smaller than the number of samples'')"
    by (simp add: sklearn_train_test_split_def validate_shuffle_split_def py_len_def)
  with split_datasets_unvalidated_test_size [of "NpInt 5" ?X ?y "just (?X, ?y)" 3 "just (NpInt 5)" sklearn_train_test_split] l
  show ?thesis by (simp add: just_def)
qed

section \<open>Regression datasets: the default number of informative features\<close>






section \<open>Optional imports\<close>

text \<open>
  C9, as the code has it. \<^verbatim>\<open>safe_import\<close> returns the imported module when the import
  succeeds and a \<^verbatim>\<open>MissingImport\<close> placeholder when the import raises an instance of
  \<^verbatim>\<open>Exception\<close>; an exception outside \<^verbatim>\<open>Exception\<close> passes through. The placeholder
  stores the message (the given one, or "<module> could not be imported"); building it
  imports nothing. Every call of the placeholder, and every access to an attribute that
  the normal lookup does not find (any name but \<^verbatim>\<open>_msg\<close> and those of its type), raises
  \<^verbatim>\<open>UnavailableImportError\<close> with that message; the access to \<^verbatim>\<open>_msg\<close> returns the
  message.
\<close>

theorem safe_import_placeholder:
  "(import_module mod_name = Inr m \<longrightarrow>
      safe_import import_module mod_name msg = Inr (Module m)) \<and>
   (import_module mod_name = Inl (ExceptionInstance c) \<longrightarrow>
      safe_import import_module mod_name msg =
        Inr (Placeholder (MissingImport_init mod_name msg))) \<and>
   (import_module mod_name = Inl (BaseExceptionOnly c) \<longrightarrow>
      safe_import import_module mod_name msg = Inl (BaseExceptionOnly c)) \<and>
   msg_attr (MissingImport_init mod_name msg) =
      (case msg of None \<Rightarrow> mod_name @ '' could not be imported'' | Some t \<Rightarrow> t) \<and>
   MissingImport_call p args = Inl (UnavailableImportError (msg_attr p)) \<and>
   (name \<noteq> ''_msg'' \<and> \<not> on_type name \<longrightarrow>
      attribute_access on_type p name = Inl (UnavailableImportError (msg_attr p))) \<and>
   attribute_access on_type p ''_msg'' = Inr (InstanceAttribute (msg_attr p))"
  by (simp add: safe_import_def MissingImport_init_def MissingImport_call_def
      MissingImport_getattr_def attribute_access_def split: option.splits)

theorem safe_import_placeholder_witness:
  "safe_import (\<lambda>name. if name = ''numpy'' then Inr () else Inl (ExceptionInstance ''ModuleNotFoundError''))
       ''numpy'' None = Inr (Module ()) \<and>
   safe_import (\<lambda>name. if name = ''numpy'' then Inr () else Inl (ExceptionInstance ''ModuleNotFoundError''))
       ''cupy'' None = Inr (Placeholder \<lparr>msg_attr = ''cupy could not be imported''\<rparr>) \<and>
   safe_import (\<lambda>name. Inl (BaseExceptionOnly ''SystemExit'') :: import_exception + unit)
       ''cupy'' (Some ''no GPU'') = Inl (BaseExceptionOnly ''SystemExit'') \<and>
   MissingImport_call \<lparr>msg_attr = ''no GPU''\<rparr> ()
      = Inl (UnavailableImportError ''no GPU'') \<and>
   (attribute_access (\<lambda>name. name = ''__class__'') \<lparr>msg_attr = ''no GPU''\<rparr> ''array'')
      = Inl (UnavailableImportError ''no GPU'')"
proof -
  let ?imp = "\<lambda>name. if name = ''numpy'' then Inr () else Inl (ExceptionInstance ''ModuleNotFoundError'')"
  let ?exit = "\<lambda>name. Inl (BaseExceptionOnly ''SystemExit'') :: import_exception + unit"
  let ?t = "\<lambda>name. name = ''__class__''"
  from safe_import_placeholder [where import_module = ?imp and mod_name = "''numpy''" and m = "()"
        and msg = None and p = "\<lparr>msg_attr = ''no GPU''\<rparr>" and name = "''array''"
        and on_type = ?t and c = "''ModuleNotFoundError''" and args = "()"]
    safe_import_placeholder [where import_module = ?imp and mod_name = "''cupy''" and m = "()"
        and msg = None and p = "\<lparr>msg_attr = ''no GPU''\<rparr>" and name = "''array''"
        and on_type = ?t and c = "''ModuleNotFoundError''" and args = "()"]
    safe_import_placeholder [where import_module = ?exit and mod_name = "''cupy''" and m = "()"
        and msg = "Some ''no GPU''" and p = "\<lparr>msg_attr = ''no GPU''\<rparr>"
        and name = "''array''" and on_type = ?t and c = "''SystemExit''" and args = "()"]
  show ?thesis by (simp add: MissingImport_init_def)
qed

text \<open>
  C9 as stated fails twice: reading the attribute \<^verbatim>\<open>_msg\<close> of a placeholder returns the
  message instead of raising, and an import that raises \<^verbatim>\<open>KeyboardInterrupt\<close> makes
  \<^verbatim>\<open>safe_import\<close> raise it.
\<close>

theorem missing_import_msg_attribute_readable:
  "attribute_access (\<lambda>name. False) (MissingImport_init ''cupy'' None) ''_msg''
     = Inr (InstanceAttribute ''cupy could not be imported'') \<and>
   safe_import (\<lambda>name. Inl (BaseExceptionOnly ''KeyboardInterrupt'') :: import_exception + unit)
       ''cupy'' None
     = Inl (BaseExceptionOnly ''KeyboardInterrupt'')"
  by (simp add: safe_import_def MissingImport_init_def attribute_access_def)


end
